theory Spec2Isabelle
  imports Main "HOL-Library.AList"
begin

section \<open>Python values, exceptions and the outside world\<close>

text \<open>
  The uploader is dynamically typed: the mapping document is whatever \<open>json.load\<close>
  yields, a remote reply is whatever the client library parsed, and \<open>if x:\<close> tests
  truthiness. Values are therefore modelled as JSON-shaped Python values. A \<open>dict\<close> is
  an association list in insertion order (keys are strings, as JSON has them); JSON
  numbers are restricted to integers. A \<open>str\<close> is the list of its characters, each
  character standing for its code point; the character type holds the code points 0 to
  255, so texts with other code points are outside the model.
\<close>

type_synonym path = string

datatype pyval =
    PNone
  | PBool bool
  | PInt int
  | PStr string
  | PList "pyval list"
  | PDict "(string \<times> pyval) list"

fun truthy :: "pyval \<Rightarrow> bool" where
  "truthy PNone = False"
| "truthy (PBool b) = b"
| "truthy (PInt i) = (i \<noteq> 0)"
| "truthy (PStr s) = (s \<noteq> [])"
| "truthy (PList xs) = (xs \<noteq> [])"
| "truthy (PDict m) = (m \<noteq> [])"

text \<open>
  Exceptions, all of them subclasses of \<open>Exception\<close> (\<open>KeyboardInterrupt\<close> is
  not modelled: no handler of the program is meant to absorb it). \<open>OSError\<close> stands for
  its subclasses too (\<open>FileNotFoundError\<close>, \<open>PermissionError\<close>); \<open>HttpError\<close> carries
  the status of the structured remote-protocol error; \<open>RemoteError\<close> is any other
  exception a remote call raises. \<open>UnicodeDecodeError\<close> is what reading a text-mode
  file raises when its bytes are no text in the file's encoding; it is a \<open>ValueError\<close>
  but not a \<open>JSONDecodeError\<close>.
\<close>

datatype exn =
    OSError
  | JSONDecodeError
  | UnicodeDecodeError
  | TypeError
  | AttributeError
  | KeyError
  | IndexError
  | HttpError nat
  | RemoteError string

fun is_HttpError :: "exn \<Rightarrow> bool" where
  "is_HttpError (HttpError n) = True"
| "is_HttpError _ = False"

datatype level = INFO | WARNING | ERROR

datatype msg =
    CheckingConnectivity
  | ConnectionDetected
  | NoConnectionDetected
  | CorruptedJson path
  | MappingSaved string pyval
  | FailedToWriteMapping exn
  | DoesNotExist path
  | ErrorReadingFileMapping exn
  | ErrorReadingMappingFile exn
  | RemovedFileMapping string
  | ErrorWritingMappingFile exn
  | NotFoundInFileMapping string
  | FailedToListFolders exn
  | FoundExistingFolder string pyval
  | CreatedNewFolder string pyval
  | FailedToCreateFolder string exn
  | CannotUploadNoConnection path
  | Updated string
  | Uploaded string
  | ErrorDuringUpload exn
  | NotFoundInDriveMapping string
  | Deleting string pyval
  | DeletedFromDrive string
  | HttpErrorDeleting string exn
  | UnexpectedErrorDeleting string exn
  | FailedToReadFolderId exn
  | FailedToSaveFolderId exn

text \<open>
  The five remote primitives the program uses. A \<open>media\<close> body is the local path
  handed to \<open>MediaFileUpload\<close> together with the bytes found there.
\<close>

type_synonym media = "path \<times> string"

datatype remote_call =
    ListFolders string string
  | CreateFolder string
  | CreateObject string pyval media
  | UpdateContent pyval media
  | DeleteObject pyval

datatype reply = Raises exn | Returns pyval

text \<open>
  Persisted documents are modelled by what their only reader sees. A document read
  with \<open>json.load\<close> is \<open>Parsed v\<close> when it parses to \<open>v\<close>, \<open>Corrupt\<close> when its
  text is no JSON (\<open>json.load\<close> raises \<open>JSONDecodeError\<close>), \<open>Undecodable\<close> when its
  bytes are not even text (the read inside \<open>json.load\<close> raises
  \<open>UnicodeDecodeError\<close>), and \<open>Unreadable\<close> when opening it raises \<open>OSError\<close>.
  The container-identity document is read as text: \<open>Text s\<close> holds the characters the
  file stores, \<open>TUndecodable\<close> is a file whose bytes are no UTF-8 text, \<open>TUnreadable\<close>
  one that cannot be opened.
\<close>

datatype jdoc = Unreadable | Undecodable | Corrupt | Parsed pyval

datatype tdoc = TUnreadable | TUndecodable | Text string

text \<open>
  What happens when a file is opened for writing and written: it is written; or
  \<open>open\<close> raises and the file stays as it was; or \<open>open\<close> truncates the file and
  the write raises afterwards, which leaves an empty file.
\<close>

datatype wres = Written | OpenFailed | FlushFailed

datatype fs_op = Exists path | Read path | Write path | Makedirs path

text \<open>
  The environment of one call: the connectivity probe's answer, the local files that
  can be opened for upload, the remote service (its reply may depend on the calls made
  so far), and which writes the operating system lets through.
\<close>

record env =
  net_up :: bool
  local_files :: "path \<Rightarrow> string option"
  remote :: "remote_call list \<Rightarrow> remote_call \<Rightarrow> reply"
  write_res :: "path \<Rightarrow> wres"
  makedirs_ok :: "path \<Rightarrow> bool"

text \<open>
  The state threaded through every operation: the persisted documents, and three
  traces (remote calls issued, file-system operations on the persisted documents, log
  records), each in chronological order.
\<close>

record state =
  json_files :: "path \<Rightarrow> jdoc option"
  text_files :: "path \<Rightarrow> tdoc option"
  calls :: "remote_call list"
  fs_ops :: "fs_op list"
  logged :: "(level \<times> msg) list"

definition emit :: "level \<Rightarrow> msg \<Rightarrow> state \<Rightarrow> state" where
  "emit l m st = st\<lparr>logged := logged st @ [(l, m)]\<rparr>"

definition note_op :: "fs_op \<Rightarrow> state \<Rightarrow> state" where
  "note_op f st = st\<lparr>fs_ops := fs_ops st @ [f]\<rparr>"

definition execute :: "env \<Rightarrow> remote_call \<Rightarrow> state \<Rightarrow> reply \<times> state" where
  "execute e c st = (remote e (calls st) c, st\<lparr>calls := calls st @ [c]\<rparr>)"

subsection \<open>Library operations on values, strings and paths\<close>

fun py_get :: "pyval \<Rightarrow> string \<Rightarrow> pyval \<Rightarrow> exn + pyval" where
  "py_get (PDict m) k d = Inr (case map_of m k of Some v \<Rightarrow> v | None \<Rightarrow> d)"
| "py_get _ k d = Inl AttributeError"

fun py_setitem :: "pyval \<Rightarrow> string \<Rightarrow> pyval \<Rightarrow> exn + pyval" where
  "py_setitem (PDict m) k v = Inr (PDict (AList.update k v m))"
| "py_setitem _ k v = Inl TypeError"

fun py_getitem :: "pyval \<Rightarrow> string \<Rightarrow> exn + pyval" where
  "py_getitem (PDict m) k = (case map_of m k of Some v \<Rightarrow> Inr v | None \<Rightarrow> Inl KeyError)"
| "py_getitem _ k = Inl TypeError"

fun py_first :: "pyval \<Rightarrow> exn + pyval" where
  "py_first (PList (x # xs)) = Inr x"
| "py_first (PList []) = Inl IndexError"
| "py_first (PStr (c # cs)) = Inr (PStr [c])"
| "py_first (PStr []) = Inl IndexError"
| "py_first (PDict m) = Inl KeyError"
| "py_first _ = Inl TypeError"

fun startswith :: "string \<Rightarrow> string \<Rightarrow> bool" where
  "startswith s [] = True"
| "startswith [] (p # ps) = False"
| "startswith (c # cs) (p # ps) = (c = p \<and> startswith cs ps)"

fun substring_in :: "string \<Rightarrow> string \<Rightarrow> bool" where
  "substring_in sub [] = (sub = [])"
| "substring_in sub (c # cs) = (startswith (c # cs) sub \<or> substring_in sub cs)"

fun py_in :: "string \<Rightarrow> pyval \<Rightarrow> exn + bool" where
  "py_in k (PDict m) = Inr (map_of m k \<noteq> None)"
| "py_in k (PList xs) = Inr (PStr k \<in> set xs)"
| "py_in k (PStr s) = Inr (substring_in k s)"
| "py_in k _ = Inl TypeError"

fun py_delitem :: "pyval \<Rightarrow> string \<Rightarrow> exn + pyval" where
  "py_delitem (PDict m) k =
     (if map_of m k = None then Inl KeyError else Inr (PDict (AList.delete k m)))"
| "py_delitem _ k = Inl TypeError"

definition basename :: "path \<Rightarrow> string" where
  "basename p = rev (takeWhile (\<lambda>c. c \<noteq> CHR ''/'') (rev p))"

definition path_join :: "path \<Rightarrow> string \<Rightarrow> path" where
  "path_join a b = (if a = [] \<or> last a = CHR ''/'' then a @ b else a @ ''/'' @ b)"

text \<open>
  \<open>str.strip()\<close> removes leading and trailing whitespace. Among the code points 0 to
  255, Python's whitespace characters are 9 to 13, 28 to 31, 32, 133 (U+0085) and 160
  (U+00A0).
\<close>

definition is_space :: "char \<Rightarrow> bool" where
  "is_space c =
     (let n = (of_char c :: nat) in
      n = 32 \<or> (9 \<le> n \<and> n \<le> 13) \<or> (28 \<le> n \<and> n \<le> 31) \<or> n = 133 \<or> n = 160)"

definition strip :: "string \<Rightarrow> string" where
  "strip s = rev (dropWhile is_space (rev (dropWhile is_space s)))"

text \<open>
  A file opened for reading in text mode with the default \<open>newline=None\<close> hands out
  its text with every CR LF pair and every lone CR turned into LF.
\<close>

fun universal_newlines :: "string \<Rightarrow> string" where
  "universal_newlines [] = []"
| "universal_newlines [c] = (if c = CHR 0x0D then [CHR 0x0A] else [c])"
| "universal_newlines (c # d # ds) =
     (if c = CHR 0x0D \<and> d = CHR 0x0A then CHR 0x0A # universal_newlines ds
      else if c = CHR 0x0D then CHR 0x0A # universal_newlines (d # ds)
      else c # universal_newlines (d # ds))"

subsection \<open>Reading and writing the persisted documents\<close>

definition json_exists :: "path \<Rightarrow> state \<Rightarrow> bool \<times> state" where
  "json_exists p st = (json_files st p \<noteq> None, note_op (Exists p) st)"

definition json_load :: "path \<Rightarrow> state \<Rightarrow> (exn + pyval) \<times> state" where
  "json_load p st =
     (case json_files st p of
        None \<Rightarrow> Inl OSError
      | Some Unreadable \<Rightarrow> Inl OSError
      | Some Undecodable \<Rightarrow> Inl UnicodeDecodeError
      | Some Corrupt \<Rightarrow> Inl JSONDecodeError
      | Some (Parsed v) \<Rightarrow> Inr v,
      note_op (Read p) st)"

definition json_dump :: "env \<Rightarrow> path \<Rightarrow> pyval \<Rightarrow> state \<Rightarrow> (exn + unit) \<times> state" where
  "json_dump e p v st =
     (let st' = note_op (Write p) st in
      case write_res e p of
        Written \<Rightarrow> (Inr (), st'\<lparr>json_files := (json_files st')(p \<mapsto> Parsed v)\<rparr>)
      | OpenFailed \<Rightarrow> (Inl OSError, st')
      | FlushFailed \<Rightarrow> (Inl OSError, st'\<lparr>json_files := (json_files st')(p \<mapsto> Corrupt)\<rparr>))"

definition text_exists :: "path \<Rightarrow> state \<Rightarrow> bool \<times> state" where
  "text_exists p st = (text_files st p \<noteq> None, note_op (Exists p) st)"

definition text_read :: "path \<Rightarrow> state \<Rightarrow> (exn + string) \<times> state" where
  "text_read p st =
     (case text_files st p of
        None \<Rightarrow> Inl OSError
      | Some TUnreadable \<Rightarrow> Inl OSError
      | Some TUndecodable \<Rightarrow> Inl UnicodeDecodeError
      | Some (Text s) \<Rightarrow> Inr (universal_newlines s),
      note_op (Read p) st)"

text \<open>
  \<open>f.write(v)\<close> on a text file accepts a \<open>str\<close> only: any other value raises
  \<open>TypeError\<close> after \<open>open\<close> has already emptied the file. On the POSIX systems
  the program is written for (its trash markers are theirs) the line separator is LF,
  so the characters are stored as they are; line endings are translated only when the
  file is read (\<open>text_read\<close>).
\<close>

definition text_write :: "env \<Rightarrow> path \<Rightarrow> pyval \<Rightarrow> state \<Rightarrow> (exn + unit) \<times> state" where
  "text_write e p v st =
     (let st' = note_op (Write p) st in
      case write_res e p of
        OpenFailed \<Rightarrow> (Inl OSError, st')
      | FlushFailed \<Rightarrow> (Inl OSError, st'\<lparr>text_files := (text_files st')(p \<mapsto> Text [])\<rparr>)
      | Written \<Rightarrow>
          (case v of
             PStr s \<Rightarrow> (Inr (), st'\<lparr>text_files := (text_files st')(p \<mapsto> Text s)\<rparr>)
           | _ \<Rightarrow> (Inl TypeError, st'\<lparr>text_files := (text_files st')(p \<mapsto> Text [])\<rparr>)))"

section \<open>network_utils\<close>

definition is_internet_connected :: "env \<Rightarrow> state \<Rightarrow> bool \<times> state" where
  "is_internet_connected e st =
     (let st1 = emit INFO CheckingConnectivity st in
      if net_up e then (True, emit INFO ConnectionDetected st1)
      else (False, emit WARNING NoConnectionDetected st1))"

section \<open>file\_utils: the identity mapping store\<close>

definition save_file_mapping ::
  "env \<Rightarrow> path \<Rightarrow> string \<Rightarrow> pyval \<Rightarrow> state \<Rightarrow> (exn + unit) \<times> state" where
  "save_file_mapping e mapping_path file_name file_id st =
     (let (ex, st1) = json_exists mapping_path st;
          (loaded, st2) =
            (if ex then
               (case json_load mapping_path st1 of
                  (Inr v, s) \<Rightarrow> (Inr v, s)
                | (Inl x, s) \<Rightarrow>
                    if x = JSONDecodeError
                    then (Inr (PDict []), emit WARNING (CorruptedJson mapping_path) s)
                    else (Inl x, s))
             else (Inr (PDict []), st1))
      in case loaded of
           Inl x \<Rightarrow> (Inl x, st2)
         | Inr mapping \<Rightarrow>
             (case py_setitem mapping file_name file_id of
                Inl x \<Rightarrow> (Inl x, st2)
              | Inr mapping' \<Rightarrow>
                  (case json_dump e mapping_path mapping' st2 of
                     (Inr u, s) \<Rightarrow> (Inr (), emit INFO (MappingSaved file_name file_id) s)
                   | (Inl x, s) \<Rightarrow> (Inr (), emit ERROR (FailedToWriteMapping x) s))))"

definition get_file_id :: "path \<Rightarrow> string \<Rightarrow> state \<Rightarrow> pyval \<times> state" where
  "get_file_id mapping_path file_name st =
     (let (ex, st1) = json_exists mapping_path st in
      if \<not> ex then (PNone, emit WARNING (DoesNotExist mapping_path) st1)
      else
        (case json_load mapping_path st1 of
           (Inl x, s) \<Rightarrow> (PNone, emit ERROR (ErrorReadingFileMapping x) s)
         | (Inr mapping, s) \<Rightarrow>
             (case py_get mapping file_name PNone of
                Inl x \<Rightarrow> (PNone, emit ERROR (ErrorReadingFileMapping x) s)
              | Inr v \<Rightarrow> (v, s))))"

definition remove_file_mapping ::
  "env \<Rightarrow> path \<Rightarrow> string \<Rightarrow> state \<Rightarrow> (exn + unit) \<times> state" where
  "remove_file_mapping e mapping_path file_name st =
     (let (ex, st1) = json_exists mapping_path st in
      if \<not> ex then (Inr (), emit WARNING (DoesNotExist mapping_path) st1)
      else
        (case json_load mapping_path st1 of
           (Inl x, s) \<Rightarrow> (Inr (), emit ERROR (ErrorReadingMappingFile x) s)
         | (Inr mapping, s) \<Rightarrow>
             (case py_in file_name mapping of
                Inl x \<Rightarrow> (Inl x, s)
              | Inr False \<Rightarrow> (Inr (), emit WARNING (NotFoundInFileMapping file_name) s)
              | Inr True \<Rightarrow>
                  (case py_delitem mapping file_name of
                     Inl x \<Rightarrow> (Inl x, s)
                   | Inr mapping' \<Rightarrow>
                       (case json_dump e mapping_path mapping' s of
                          (Inr u, s') \<Rightarrow> (Inr (), emit INFO (RemovedFileMapping file_name) s')
                        | (Inl x, s') \<Rightarrow>
                            (Inr (), emit ERROR (ErrorWritingMappingFile x) s'))))))"

section \<open>drive\_utils: the container resolver and the remote sync operations\<close>

definition folder_query :: "string \<Rightarrow> string" where
  "folder_query folder_name =
     ''name='' @ [CHR 0x27] @ folder_name @ [CHR 0x27] @
     '' and mimeType='application/vnd.google-apps.folder' and trashed=false''"

definition get_or_create_drive_folder ::
  "env \<Rightarrow> string \<Rightarrow> state \<Rightarrow> (exn + pyval) \<times> state" where
  "get_or_create_drive_folder e folder_name st =
     (let query = folder_query folder_name;
          (r, st1) = execute e (ListFolders query ''files(id, name)'') st;
          listed = (case r of
                      Raises x \<Rightarrow> Inl x
                    | Returns results \<Rightarrow> py_get results ''files'' (PList []))
      in case listed of
           Inl x \<Rightarrow> (Inr PNone, emit ERROR (FailedToListFolders x) st1)
         | Inr files \<Rightarrow>
             if truthy files then
               (case py_first files of
                  Inl x \<Rightarrow> (Inl x, st1)
                | Inr f \<Rightarrow>
                    (case py_getitem f ''id'' of
                       Inl x \<Rightarrow> (Inl x, st1)
                     | Inr found_id \<Rightarrow>
                         (Inr found_id,
                          emit INFO (FoundExistingFolder folder_name found_id) st1)))
             else
               (let (r2, st2) = execute e (CreateFolder folder_name) st1;
                    created = (case r2 of
                                 Raises x \<Rightarrow> Inl x
                               | Returns folder \<Rightarrow> py_get folder ''id'' PNone)
                in case created of
                     Inl x \<Rightarrow> (Inr PNone, emit ERROR (FailedToCreateFolder folder_name x) st2)
                   | Inr new_id \<Rightarrow>
                       (Inr new_id, emit INFO (CreatedNewFolder folder_name new_id) st2)))"

text \<open>
  \<open>MediaFileUpload(file_path, resumable=True)\<close> opens the local file in its
  constructor, so it raises when the file cannot be opened. In \<open>upload_file\<close> that
  constructor call and the mapping lookup stand before the \<open>try\<close>.
\<close>

definition upload_file ::
  "env \<Rightarrow> pyval \<Rightarrow> path \<Rightarrow> path \<Rightarrow> state \<Rightarrow> (exn + unit) \<times> state" where
  "upload_file e container_id mapping_file file_path st =
     (let (up, st1) = is_internet_connected e st in
      if \<not> up then (Inr (), emit ERROR (CannotUploadNoConnection file_path) st1)
      else
        let file_name = basename file_path in
        case local_files e file_path of
          None \<Rightarrow> (Inl OSError, st1)
        | Some bytes \<Rightarrow>
            (let media = (file_path, bytes);
                 (existing_file_id, st2) = get_file_id mapping_file file_name st1
             in if truthy existing_file_id then
                  (case execute e (UpdateContent existing_file_id media) st2 of
                     (Raises x, s) \<Rightarrow> (Inr (), emit ERROR (ErrorDuringUpload x) s)
                   | (Returns v, s) \<Rightarrow> (Inr (), emit INFO (Updated file_name) s))
                else
                  (case execute e (CreateObject file_name container_id media) st2 of
                     (Raises x, s) \<Rightarrow> (Inr (), emit ERROR (ErrorDuringUpload x) s)
                   | (Returns file, s) \<Rightarrow>
                       (case py_get file ''id'' PNone of
                          Inl x \<Rightarrow> (Inr (), emit ERROR (ErrorDuringUpload x) s)
                        | Inr new_id \<Rightarrow>
                            (case save_file_mapping e mapping_file file_name new_id s of
                               (Inl x, s') \<Rightarrow> (Inr (), emit ERROR (ErrorDuringUpload x) s')
                             | (Inr u, s') \<Rightarrow> (Inr (), emit INFO (Uploaded file_name) s'))))))"

definition delete_file_from_drive ::
  "env \<Rightarrow> path \<Rightarrow> string \<Rightarrow> state \<Rightarrow> (exn + unit) \<times> state" where
  "delete_file_from_drive e mapping_file file_name st =
     (let (file_id, st1) = get_file_id mapping_file file_name st in
      if \<not> truthy file_id then (Inr (), emit WARNING (NotFoundInDriveMapping file_name) st1)
      else
        let st2 = emit INFO (Deleting file_name file_id) st1;
            (r, st3) = execute e (DeleteObject file_id) st2;
            (outcome, st4) =
              (case r of
                 Raises x \<Rightarrow> (Inl x, st3)
               | Returns v \<Rightarrow> remove_file_mapping e mapping_file file_name st3)
        in case outcome of
             Inr u \<Rightarrow> (Inr (), emit INFO (DeletedFromDrive file_name) st4)
           | Inl x \<Rightarrow>
               if is_HttpError x
               then (Inr (), emit ERROR (HttpErrorDeleting file_name x) st4)
               else (Inr (), emit ERROR (UnexpectedErrorDeleting file_name x) st4))"

section \<open>watcher: the event reconciler\<close>

text \<open>
  The \<open>service\<close> attribute of the watcher is the environment's remote service.
\<close>

record watcher =
  watch_folder :: path
  base_dir :: path
  mapping_path :: path
  folder_id_file :: path
  folder_id :: pyval

definition Watcher_init :: "path \<Rightarrow> path \<Rightarrow> path option \<Rightarrow> watcher" where
  "Watcher_init BASE_DIR folder bd =
     (let b = (case bd of None \<Rightarrow> BASE_DIR | Some d \<Rightarrow> if d = [] then BASE_DIR else d) in
      \<lparr>watch_folder = folder, base_dir = b,
       mapping_path = path_join b ''file_map.json'',
       folder_id_file = path_join b ''folder_id.txt'',
       folder_id = PNone\<rparr>)"

definition get_or_create_folder_id ::
  "env \<Rightarrow> watcher \<Rightarrow> state \<Rightarrow> (exn + pyval) \<times> watcher \<times> state" where
  "get_or_create_folder_id e w st =
     (let (ex, st1) = text_exists (folder_id_file w) st;
          (cached, st2) =
            (if ex then
               (case text_read (folder_id_file w) st1 of
                  (Inl x, s) \<Rightarrow> (None, emit ERROR (FailedToReadFolderId x) s)
                | (Inr txt, s) \<Rightarrow>
                    if strip txt \<noteq> [] then (Some (strip txt), s) else (None, s))
             else (None, st1))
      in case cached of
           Some fid \<Rightarrow> (Inr (PStr fid), w\<lparr>folder_id := PStr fid\<rparr>, st2)
         | None \<Rightarrow>
             (case get_or_create_drive_folder e (basename (watch_folder w)) st2 of
                (Inl x, s) \<Rightarrow> (Inl x, w, s)
              | (Inr fid, s) \<Rightarrow>
                  if truthy fid then
                    (let s1 = note_op (Makedirs (base_dir w)) s in
                     if makedirs_ok e (base_dir w) then
                       (case text_write e (folder_id_file w) fid s1 of
                          (Inr u, s') \<Rightarrow> (Inr fid, w\<lparr>folder_id := fid\<rparr>, s')
                        | (Inl x, s') \<Rightarrow> (Inr fid, w, emit ERROR (FailedToSaveFolderId x) s'))
                     else (Inr fid, w, emit ERROR (FailedToSaveFolderId OSError) s1))
                  else (Inr fid, w, s)))"

text \<open>
  A file-system event as the watch library delivers it. \<open>dest_path\<close> is \<open>None\<close>
  when the event object has no such attribute (\<open>getattr\<close> then yields the empty
  string).
\<close>

record event =
  is_directory :: bool
  src_path :: path
  dest_path :: "path option"

datatype event_kind = Created | Modified | Deleted | Moved

definition on_modified ::
  "env \<Rightarrow> watcher \<Rightarrow> event \<Rightarrow> state \<Rightarrow> (exn + unit) \<times> state" where
  "on_modified e w ev st =
     (if is_directory ev then (Inr (), st)
      else if startswith (basename (src_path ev)) ''.'' then (Inr (), st)
      else upload_file e (folder_id w) (mapping_path w) (src_path ev) st)"

definition on_created ::
  "env \<Rightarrow> watcher \<Rightarrow> event \<Rightarrow> state \<Rightarrow> (exn + unit) \<times> state" where
  "on_created e w ev st =
     (if is_directory ev then (Inr (), st)
      else if startswith (basename (src_path ev)) ''.'' then (Inr (), st)
      else upload_file e (folder_id w) (mapping_path w) (src_path ev) st)"

definition on_deleted ::
  "env \<Rightarrow> watcher \<Rightarrow> event \<Rightarrow> state \<Rightarrow> (exn + unit) \<times> state" where
  "on_deleted e w ev st =
     (if is_directory ev then (Inr (), st)
      else if startswith (basename (src_path ev)) ''.'' then (Inr (), st)
      else delete_file_from_drive e (mapping_path w) (basename (src_path ev)) st)"

definition trash_destination :: "event \<Rightarrow> bool" where
  "trash_destination ev =
     (let dest = (case dest_path ev of None \<Rightarrow> [] | Some d \<Rightarrow> d) in
      substring_in ''/.local/share/Trash'' dest \<or> substring_in ''/Trash'' dest)"

definition on_moved ::
  "env \<Rightarrow> watcher \<Rightarrow> event \<Rightarrow> state \<Rightarrow> (exn + unit) \<times> state" where
  "on_moved e w ev st =
     (if is_directory ev then (Inr (), st)
      else if trash_destination ev
      then delete_file_from_drive e (mapping_path w) (basename (src_path ev)) st
      else (Inr (), st))"

text \<open>
  The watch library's handler base class routes each event to the method of its kind.
\<close>

definition dispatch ::
  "env \<Rightarrow> watcher \<Rightarrow> event_kind \<Rightarrow> event \<Rightarrow> state \<Rightarrow> (exn + unit) \<times> state" where
  "dispatch e w k ev st =
     (case k of
        Created \<Rightarrow> on_created e w ev st
      | Modified \<Rightarrow> on_modified e w ev st
      | Deleted \<Rightarrow> on_deleted e w ev st
      | Moved \<Rightarrow> on_moved e w ev st)"

section \<open>Observations on the persisted documents\<close>

text \<open>
  The entry the read path (\<open>get_file_id\<close>) finds for a name: only a document that
  parses to an object has entries.
\<close>

definition mapping_entry :: "state \<Rightarrow> path \<Rightarrow> string \<Rightarrow> pyval option" where
  "mapping_entry st mp n =
     (case json_files st mp of
        Some (Parsed (PDict m)) \<Rightarrow> map_of m n
      | _ \<Rightarrow> None)"

text \<open>
  The mapping the write path (\<open>save_file_mapping\<close>) starts from: a missing or corrupt
  document counts as the empty mapping; an unreadable document, or one that parses to
  something other than an object, is no mapping at all.
\<close>

definition identity_mapping :: "state \<Rightarrow> path \<Rightarrow> (string \<times> pyval) list option" where
  "identity_mapping st mp =
     (case json_files st mp of
        None \<Rightarrow> Some []
      | Some Corrupt \<Rightarrow> Some []
      | Some (Parsed (PDict m)) \<Rightarrow> Some m
      | _ \<Rightarrow> None)"

text \<open>
  The non-empty, whitespace-trimmed identifier held by the container-identity
  document, as a text-mode read sees it, if it holds one.
\<close>

definition cached_folder_id :: "state \<Rightarrow> path \<Rightarrow> string option" where
  "cached_folder_id st f =
     (case text_files st f of
        Some (Text t) \<Rightarrow>
          if strip (universal_newlines t) \<noteq> [] then Some (strip (universal_newlines t))
          else None
      | _ \<Rightarrow> None)"

text \<open>The list request \<open>get_or_create_drive_folder\<close> sends for a container name.\<close>

definition list_query :: "string \<Rightarrow> remote_call" where
  "list_query nm = ListFolders (folder_query nm) ''files(id, name)''"

section \<open>Example inputs\<close>

definition working_service :: "remote_call list \<Rightarrow> remote_call \<Rightarrow> reply" where
  "working_service history c =
     (case c of
        ListFolders q f \<Rightarrow> Returns (PDict [(''files'', PList [])])
      | CreateFolder n \<Rightarrow> Returns (PDict [(''id'', PStr ''F1'')])
      | CreateObject n p m \<Rightarrow> Returns (PDict [(''id'', PStr ''id123'')])
      | UpdateContent i m \<Rightarrow> Returns (PDict [(''id'', i)])
      | DeleteObject i \<Rightarrow> Returns (PStr []))"

definition failing_service :: "remote_call list \<Rightarrow> remote_call \<Rightarrow> reply" where
  "failing_service history c =
     (case c of
        DeleteObject i \<Rightarrow> Raises (HttpError 404)
      | _ \<Rightarrow> Raises (RemoteError ''timed out''))"



definition report_path :: path where
  "report_path = ''/home/u/sync/report.txt''"

definition map_file :: path where
  "map_file = ''/app/src/file_map.json''"

definition id_file :: path where
  "id_file = ''/app/src/folder_id.txt''"

definition online :: env where
  "online = \<lparr>net_up = True, local_files = [report_path \<mapsto> ''v1''],
     remote = working_service, write_res = (\<lambda>p. Written), makedirs_ok = (\<lambda>p. True)\<rparr>"

definition offline :: env where
  "offline = online\<lparr>net_up := False\<rparr>"

definition empty_state :: state where
  "empty_state = \<lparr>json_files = Map.empty, text_files = Map.empty, calls = [], fs_ops = [],
     logged = []\<rparr>"

definition tracked_state :: state where
  "tracked_state = empty_state\<lparr>json_files :=
     [map_file \<mapsto> Parsed (PDict [(''report.txt'', PStr ''id123'')])]\<rparr>"


definition corrupt_state :: state where
  "corrupt_state = empty_state\<lparr>json_files := [map_file \<mapsto> Corrupt]\<rparr>"

definition undecodable_state :: state where
  "undecodable_state = empty_state\<lparr>json_files := [map_file \<mapsto> Undecodable]\<rparr>"

definition cached_state :: state where
  "cached_state = empty_state\<lparr>text_files := [id_file \<mapsto> Text ''F7 '']\<rparr>"

definition example_watcher :: watcher where
  "example_watcher =
     (Watcher_init ''/app/src'' ''/home/u/sync'' None)\<lparr>folder_id := PStr ''F1''\<rparr>"


definition report_to_trash :: event where
  "report_to_trash = \<lparr>is_directory = False, src_path = report_path,
     dest_path = Some ''/home/u/.local/share/Trash/files/report.txt''\<rparr>"

definition report_renamed :: event where
  "report_renamed = \<lparr>is_directory = False, src_path = report_path,
     dest_path = Some ''/home/u/sync/report-final.txt''\<rparr>"

section \<open>Auxiliary facts\<close>

lemmas io_defs =
  json_exists_def json_load_def json_dump_def emit_def note_op_def execute_def Let_def

lemma py_get_case:
  "py_get v k d =
     (case v of
        PDict m \<Rightarrow> Inr (case map_of m k of Some x \<Rightarrow> x | None \<Rightarrow> d)
      | _ \<Rightarrow> Inl AttributeError)"
  by (cases v) simp_all

lemma py_setitem_case:
  "py_setitem v k x =
     (case v of PDict m \<Rightarrow> Inr (PDict (AList.update k x m)) | _ \<Rightarrow> Inl TypeError)"
  by (cases v) simp_all

lemma update_append_new:
  "map_of m k = None \<Longrightarrow> AList.update k v m = m @ [(k, v)]"
  by (induction m) (auto split: if_splits)

lemma example_paths:
  "mapping_path example_watcher = map_file"
  "folder_id_file example_watcher = id_file"
  "base_dir example_watcher = ''/app/src''"
  "watch_folder example_watcher = ''/home/u/sync''"
  "basename report_path = ''report.txt''"
  "basename ''/home/u/sync'' = ''sync''"
  by (simp_all add: example_watcher_def Watcher_init_def path_join_def map_file_def
      id_file_def basename_def report_path_def)

subsection \<open>The mapping store\<close>

lemma get_file_id_frame:
  "json_files (snd (get_file_id mp n st)) = json_files st"
  "text_files (snd (get_file_id mp n st)) = text_files st"
  "calls (snd (get_file_id mp n st)) = calls st"
  by (simp_all add: get_file_id_def io_defs split: option.splits jdoc.splits sum.splits)

lemma get_file_id_value:
  "fst (get_file_id mp n st) = (case mapping_entry st mp n of Some v \<Rightarrow> v | None \<Rightarrow> PNone)"
  by (simp add: get_file_id_def io_defs mapping_entry_def py_get_case
      split: option.splits jdoc.splits pyval.splits)

lemma save_file_mapping_written:
  assumes "identity_mapping st mp = Some m" and "write_res e mp = Written"
  shows "fst (save_file_mapping e mp n i st) = Inr ()"
    and "json_files (snd (save_file_mapping e mp n i st)) =
           (json_files st)(mp \<mapsto> Parsed (PDict (AList.update n i m)))"
    and "text_files (snd (save_file_mapping e mp n i st)) = text_files st"
    and "calls (snd (save_file_mapping e mp n i st)) = calls st"
  using assms
  by (auto simp add: save_file_mapping_def io_defs identity_mapping_def py_setitem_case
      split: option.splits jdoc.splits pyval.splits)

lemma remove_file_mapping_frame:
  "calls (snd (remove_file_mapping e mp n st)) = calls st"
  "text_files (snd (remove_file_mapping e mp n st)) = text_files st"
  by (auto simp add: remove_file_mapping_def io_defs
      split: option.splits jdoc.splits sum.splits wres.splits bool.splits)

subsection \<open>Deleting\<close>

lemma delete_untracked:
  assumes "mapping_entry st mp n = None"
  shows "delete_file_from_drive e mp n st =
           (Inr (), emit WARNING (NotFoundInDriveMapping n) (snd (get_file_id mp n st)))"
proof -
  obtain v s1 where g: "get_file_id mp n st = (v, s1)" by (cases "get_file_id mp n st")
  have "v = PNone" using get_file_id_value[of mp n st] g assms by simp
  then show ?thesis using g by (simp add: delete_file_from_drive_def)
qed

lemma delete_tracked:
  assumes "mapping_entry st mp n = Some i" and "truthy i"
  shows "delete_file_from_drive e mp n st =
     (let st2 = emit INFO (Deleting n i) (snd (get_file_id mp n st));
          (r, st3) = execute e (DeleteObject i) st2;
          (outcome, st4) =
              (case r of
                 Raises x \<Rightarrow> (Inl x, st3)
               | Returns v \<Rightarrow> remove_file_mapping e mp n st3)
        in case outcome of
             Inr u \<Rightarrow> (Inr (), emit INFO (DeletedFromDrive n) st4)
           | Inl x \<Rightarrow>
               if is_HttpError x
               then (Inr (), emit ERROR (HttpErrorDeleting n x) st4)
               else (Inr (), emit ERROR (UnexpectedErrorDeleting n x) st4))"
proof -
  obtain v s1 where g: "get_file_id mp n st = (v, s1)" by (cases "get_file_id mp n st")
  have "v = i" using get_file_id_value[of mp n st] g assms by simp
  then show ?thesis using g assms by (simp add: delete_file_from_drive_def)
qed

lemma delete_falsy:
  assumes "mapping_entry st mp n = Some i" and "\<not> truthy i"
  shows "delete_file_from_drive e mp n st =
           (Inr (), emit WARNING (NotFoundInDriveMapping n) (snd (get_file_id mp n st)))"
proof -
  obtain v s1 where g: "get_file_id mp n st = (v, s1)" by (cases "get_file_id mp n st")
  have "v = i" using get_file_id_value[of mp n st] g assms by simp
  then show ?thesis using g assms by (simp add: delete_file_from_drive_def)
qed

lemma delete_untracked_effect:
  assumes "mapping_entry st mp n = None"
  shows "case delete_file_from_drive e mp n st of (r, st') \<Rightarrow>
           r = Inr () \<and> calls st' = calls st \<and> json_files st' = json_files st \<and>
           text_files st' = text_files st \<and>
           last (logged st') = (WARNING, NotFoundInDriveMapping n)"
  using assms by (simp add: delete_untracked emit_def get_file_id_frame)

lemma delete_success_effect:
  assumes "mapping_entry st mp n = Some i" and "truthy i"
    and "remote e (calls st) (DeleteObject i) = Returns v" and "write_res e mp = Written"
  shows "case delete_file_from_drive e mp n st of (r1, st1) \<Rightarrow>
           calls st1 = calls st @ [DeleteObject i] \<and> mapping_entry st1 mp n = None"
proof -
  obtain m where m: "json_files st mp = Some (Parsed (PDict m))" "map_of m n = Some i"
    using assms(1)
    by (auto simp: mapping_entry_def split: option.splits jdoc.splits pyval.splits)
  show ?thesis
    using assms m
    by (simp add: delete_tracked get_file_id_frame execute_def emit_def Let_def
        remove_file_mapping_def json_exists_def json_load_def json_dump_def note_op_def
        mapping_entry_def AList.delete_conv')
qed

lemma delete_calls:
  "case delete_file_from_drive e mp n st of (r, st') \<Rightarrow>
     r = Inr () \<and> text_files st' = text_files st \<and>
     (calls st' = calls st \<and> json_files st' = json_files st \<or>
      (\<exists>i. mapping_entry st mp n = Some i \<and> truthy i \<and>
           calls st' = calls st @ [DeleteObject i]))"
proof (cases "mapping_entry st mp n")
  case None
  then show ?thesis
    by (simp add: delete_untracked emit_def get_file_id_frame)
next
  case (Some i)
  show ?thesis
  proof (cases "truthy i")
    case True
    let ?s3 = "(emit INFO (Deleting n i) (snd (get_file_id mp n st)))
                 \<lparr>calls := calls st @ [DeleteObject i]\<rparr>"
    obtain ro s4 where rm: "remove_file_mapping e mp n ?s3 = (ro, s4)"
      by (cases "remove_file_mapping e mp n ?s3")
    have fr: "calls s4 = calls st @ [DeleteObject i]" "text_files s4 = text_files st"
      using remove_file_mapping_frame[of e mp n ?s3] rm
      by (simp_all add: emit_def get_file_id_frame)
    show ?thesis using Some True rm fr
      by (simp add: delete_tracked[OF Some True] execute_def emit_def Let_def
          get_file_id_frame split: sum.splits reply.splits)
  next
    case False
    show ?thesis
      by (simp add: delete_falsy[OF Some False] emit_def get_file_id_frame)
  qed
qed

subsection \<open>Resolving the container\<close>




lemma resolve_calls:
  "calls (snd (get_or_create_drive_folder e nm st)) = calls st @ [list_query nm] \<or>
   calls (snd (get_or_create_drive_folder e nm st)) =
     calls st @ [list_query nm, CreateFolder nm]"
  by (simp add: get_or_create_drive_folder_def execute_def list_query_def Let_def emit_def
      split: reply.splits sum.splits prod.splits)

lemma resolve_frame:
  "json_files (snd (get_or_create_drive_folder e nm st)) = json_files st"
  "text_files (snd (get_or_create_drive_folder e nm st)) = text_files st"
  "fs_ops (snd (get_or_create_drive_folder e nm st)) = fs_ops st"
  by (simp_all add: get_or_create_drive_folder_def execute_def Let_def emit_def
      split: reply.splits sum.splits prod.splits)

lemma resolve_depends_on_calls:
  assumes "calls s = calls s'"
  shows "fst (get_or_create_drive_folder e nm s) = fst (get_or_create_drive_folder e nm s')"
    and "calls (snd (get_or_create_drive_folder e nm s)) =
         calls (snd (get_or_create_drive_folder e nm s'))"
  using assms
  by (simp_all add: get_or_create_drive_folder_def execute_def Let_def emit_def
      split: reply.splits sum.splits prod.splits)

lemma folder_id_cached:
  assumes "cached_folder_id st (folder_id_file w) = Some c"
  shows "get_or_create_folder_id e w st =
           (Inr (PStr c), w\<lparr>folder_id := PStr c\<rparr>,
            st\<lparr>fs_ops := fs_ops st @ [Exists (folder_id_file w), Read (folder_id_file w)]\<rparr>)"
  using assms
  by (auto simp add: get_or_create_folder_id_def cached_folder_id_def text_exists_def
      text_read_def note_op_def Let_def split: option.splits tdoc.splits if_splits)

lemma folder_id_uncached:
  assumes "cached_folder_id st (folder_id_file w) = None"
  shows "\<exists>s. calls s = calls st \<and> text_files s = text_files st \<and>
           get_or_create_folder_id e w st =
           (case get_or_create_drive_folder e (basename (watch_folder w)) s of
                (Inl x, s) \<Rightarrow> (Inl x, w, s)
              | (Inr fid, s) \<Rightarrow>
                  if truthy fid then
                    (let s1 = note_op (Makedirs (base_dir w)) s in
                     if makedirs_ok e (base_dir w) then
                       (case text_write e (folder_id_file w) fid s1 of
                          (Inr u, s') \<Rightarrow> (Inr fid, w\<lparr>folder_id := fid\<rparr>, s')
                        | (Inl x, s') \<Rightarrow> (Inr fid, w, emit ERROR (FailedToSaveFolderId x) s'))
                     else (Inr fid, w, emit ERROR (FailedToSaveFolderId OSError) s1))
                  else (Inr fid, w, s))"
proof (cases "text_files st (folder_id_file w)")
  case None
  then show ?thesis
    by (intro exI[of _ "note_op (Exists (folder_id_file w)) st"])
       (simp add: get_or_create_folder_id_def text_exists_def note_op_def)
next
  case (Some d)
  show ?thesis
  proof (cases d)
    case TUnreadable
    with Some show ?thesis
      by (intro exI[of _ "emit ERROR (FailedToReadFolderId OSError)
             (note_op (Read (folder_id_file w)) (note_op (Exists (folder_id_file w)) st))"])
         (simp add: get_or_create_folder_id_def text_exists_def text_read_def note_op_def
            emit_def)
  next
    case TUndecodable
    with Some show ?thesis
      by (intro exI[of _ "emit ERROR (FailedToReadFolderId UnicodeDecodeError)
             (note_op (Read (folder_id_file w)) (note_op (Exists (folder_id_file w)) st))"])
         (simp add: get_or_create_folder_id_def text_exists_def text_read_def note_op_def
            emit_def)
  next
    case (Text t)
    with Some assms have "strip (universal_newlines t) = []"
      by (simp add: cached_folder_id_def split: if_splits)
    with Some Text show ?thesis
      by (intro exI[of _ "note_op (Read (folder_id_file w))
             (note_op (Exists (folder_id_file w)) st)"])
         (simp add: get_or_create_folder_id_def text_exists_def text_read_def note_op_def)
  qed
qed

subsection \<open>Uploading\<close>

lemma is_internet_connected_up:
  "net_up e \<Longrightarrow> is_internet_connected e st =
     (True, st\<lparr>logged := logged st @
        [(INFO, CheckingConnectivity), (INFO, ConnectionDetected)]\<rparr>)"
  by (simp add: is_internet_connected_def emit_def)

lemma upload_update:
  assumes "mapping_entry st mp (basename fp) = Some i" and "truthy i"
    and "net_up e" and "local_files e fp = Some b"
  shows "case upload_file e cid mp fp st of (r, st') \<Rightarrow>
           r = Inr () \<and> calls st' = calls st @ [UpdateContent i (fp, b)] \<and>
           json_files st' = json_files st \<and> text_files st' = text_files st"
proof -
  let ?s0 = "st\<lparr>logged := logged st @
                [(INFO, CheckingConnectivity), (INFO, ConnectionDetected)]\<rparr>"
  obtain v s1 where g: "get_file_id mp (basename fp) ?s0 = (v, s1)"
    by (cases "get_file_id mp (basename fp) ?s0")
  have me: "mapping_entry ?s0 mp (basename fp) = Some i"
    using assms(1) by (simp add: mapping_entry_def)
  have v: "v = i" using get_file_id_value[of mp "basename fp" ?s0] g me by simp
  have fr: "json_files s1 = json_files st" "calls s1 = calls st" "text_files s1 = text_files st"
    using get_file_id_frame[of mp "basename fp" ?s0] g by simp_all
  show ?thesis
    using assms g v fr
    by (simp add: upload_file_def is_internet_connected_up execute_def emit_def Let_def
        split: reply.splits)
qed

lemma upload_create:
  assumes "identity_mapping st mp = Some m" and "map_of m (basename fp) = None"
    and "net_up e" and "local_files e fp = Some b"
    and "remote e (calls st) (CreateObject (basename fp) cid (fp, b)) = Returns file"
    and "py_get file ''id'' PNone = Inr i"
    and "write_res e mp = Written"
  shows "case upload_file e cid mp fp st of (r, st') \<Rightarrow>
           r = Inr () \<and> calls st' = calls st @ [CreateObject (basename fp) cid (fp, b)] \<and>
           json_files st' = (json_files st)(mp \<mapsto> Parsed (PDict (m @ [(basename fp, i)]))) \<and>
           text_files st' = text_files st"
proof -
  let ?n = "basename fp"
  let ?s0 = "st\<lparr>logged := logged st @
                [(INFO, CheckingConnectivity), (INFO, ConnectionDetected)]\<rparr>"
  obtain v s1 where g: "get_file_id mp ?n ?s0 = (v, s1)"
    by (cases "get_file_id mp ?n ?s0")
  have me: "mapping_entry ?s0 mp ?n = None"
    using assms(1,2)
    by (auto simp add: mapping_entry_def identity_mapping_def
        split: option.splits jdoc.splits pyval.splits)
  have v: "v = PNone" using get_file_id_value[of mp ?n ?s0] g me by simp
  have fr: "json_files s1 = json_files st" "calls s1 = calls st" "text_files s1 = text_files st"
    using get_file_id_frame[of mp ?n ?s0] g by simp_all
  let ?s2 = "s1\<lparr>calls := calls s1 @ [CreateObject ?n cid (fp, b)]\<rparr>"
  have im: "identity_mapping ?s2 mp = Some m"
    using assms(1) fr by (simp add: identity_mapping_def)
  obtain r3 s3 where sv: "save_file_mapping e mp ?n i ?s2 = (r3, s3)"
    by (cases "save_file_mapping e mp ?n i ?s2")
  have s3: "r3 = Inr ()"
    "json_files s3 = (json_files st)(mp \<mapsto> Parsed (PDict (m @ [(?n, i)])))"
    "text_files s3 = text_files st" "calls s3 = calls st @ [CreateObject ?n cid (fp, b)]"
    using save_file_mapping_written[OF im assms(7), of ?n i] sv fr assms(2)
    by (simp_all add: update_append_new)
  show ?thesis
    using assms g v fr sv s3
    by (simp add: upload_file_def is_internet_connected_up execute_def emit_def Let_def)
qed

lemma upload_file_unopenable:
  assumes "net_up e" and "local_files e fp = None"
  shows "upload_file e cid mp fp st =
           (Inl OSError, st\<lparr>logged := logged st @
              [(INFO, CheckingConnectivity), (INFO, ConnectionDetected)]\<rparr>)"
  using assms by (simp add: upload_file_def is_internet_connected_up)

lemma upload_file_remote_failure_caught:
  assumes "local_files e fp \<noteq> None"
  shows "fst (upload_file e cid mp fp st) = Inr ()"
  using assms
  by (auto simp add: upload_file_def is_internet_connected_def Let_def
      split: prod.splits reply.splits sum.splits option.splits)

subsection \<open>The handlers and the hidden-file marker\<close>

lemma hidden_ignored_unless_moved:
  assumes "startswith (basename (src_path ev)) ''.''" and "k \<noteq> Moved"
  shows "dispatch e w k ev st = (Inr (), st)"
  using assms
  by (cases k) (simp_all add: dispatch_def on_created_def on_modified_def on_deleted_def)

lemma directory_ignored:
  assumes "is_directory ev"
  shows "dispatch e w k ev st = (Inr (), st)"
  using assms
  by (cases k)
     (simp_all add: dispatch_def on_created_def on_modified_def on_deleted_def on_moved_def)

lemma hidden_move_untracked:
  assumes "mapping_entry st (mapping_path w) (basename (src_path ev)) = None"
  shows "case dispatch e w Moved ev st of (r, st') \<Rightarrow>
           r = Inr () \<and> calls st' = calls st \<and> json_files st' = json_files st"
proof (cases "\<not> is_directory ev \<and> trash_destination ev")
  case True
  then show ?thesis
    using delete_untracked_effect[OF assms, of e]
    by (auto simp add: dispatch_def on_moved_def split: prod.splits)
next
  case False
  then show ?thesis by (auto simp add: dispatch_def on_moved_def)
qed

lemmas run_defs =
  upload_file_def is_internet_connected_def get_file_id_def save_file_mapping_def io_defs
  empty_state_def online_def offline_def working_service_def failing_service_def
  report_path_def map_file_def basename_def mapping_entry_def

section \<open>The claims\<close>

text \<open>
  C1 (idempotent upload). Let the identity mapping (a missing or corrupt document
  counting as empty) have no entry for the base name \<open>n\<close> of the local path, and let
  the probe report reachable, the local file be openable, the create-object call return
  an object whose identifier \<open>i\<close> is non-empty, and the mapping document be written.
  Then \<open>upload_file\<close> issues exactly one create-object call and records \<open>n \<mapsto> i\<close>
  (all other entries kept); a second \<open>upload_file\<close> for the same name (probe
  reachable, file openable), whatever the content now is and whatever the update call
  replies, issues exactly one update-content call against \<open>i\<close> and leaves the mapping
  document as it was: no second create, no new identifier.
\<close>

theorem upload_twice_create_then_update:
  assumes "identity_mapping st mp = Some m" and "map_of m (basename fp) = None"
    and "net_up e1" and "local_files e1 fp = Some b1"
    and "remote e1 (calls st) (CreateObject (basename fp) cid (fp, b1)) = Returns file"
    and "py_get file ''id'' PNone = Inr i" and "truthy i"
    and "write_res e1 mp = Written"
    and "net_up e2" and "local_files e2 fp' = Some b2" and "basename fp' = basename fp"
  shows "case upload_file e1 cid mp fp st of (r1, st1) \<Rightarrow>
           r1 = Inr () \<and> calls st1 = calls st @ [CreateObject (basename fp) cid (fp, b1)] \<and>
           identity_mapping st1 mp = Some (m @ [(basename fp, i)]) \<and>
           (case upload_file e2 cid' mp fp' st1 of (r2, st2) \<Rightarrow>
              r2 = Inr () \<and> calls st2 = calls st1 @ [UpdateContent i (fp', b2)] \<and>
              json_files st2 = json_files st1 \<and>
              identity_mapping st2 mp = Some (m @ [(basename fp, i)]))"
proof -
  obtain r1 st1 where u1: "upload_file e1 cid mp fp st = (r1, st1)"
    by (cases "upload_file e1 cid mp fp st")
  have c: "r1 = Inr ()" "calls st1 = calls st @ [CreateObject (basename fp) cid (fp, b1)]"
    "json_files st1 = (json_files st)(mp \<mapsto> Parsed (PDict (m @ [(basename fp, i)])))"
    using upload_create[OF assms(1,2,3,4,5,6,8)] u1 by simp_all
  have im: "identity_mapping st1 mp = Some (m @ [(basename fp, i)])"
    using c(3) by (simp add: identity_mapping_def)
  have me: "mapping_entry st1 mp (basename fp') = Some i"
    using c(3) assms(2,11) by (simp add: mapping_entry_def map_add_Some_iff)
  obtain r2 st2 where u2: "upload_file e2 cid' mp fp' st1 = (r2, st2)"
    by (cases "upload_file e2 cid' mp fp' st1")
  have d: "r2 = Inr ()" "calls st2 = calls st1 @ [UpdateContent i (fp', b2)]"
    "json_files st2 = json_files st1"
    using upload_update[OF me assms(7,9,10), of cid'] u2 by simp_all
  have im2: "identity_mapping st2 mp = Some (m @ [(basename fp, i)])"
    using im d(3) by (simp add: identity_mapping_def)
  show ?thesis using u1 u2 c im d im2 by simp
qed

theorem upload_twice_witness:
  "identity_mapping empty_state map_file = Some [] \<and>
   map_of [] (basename report_path) = (None :: pyval option) \<and>
   net_up online \<and> local_files online report_path = Some ''v1'' \<and>
   remote online (calls empty_state)
     (CreateObject (basename report_path) (PStr ''F1'') (report_path, ''v1''))
     = Returns (PDict [(''id'', PStr ''id123'')]) \<and>
   py_get (PDict [(''id'', PStr ''id123'')]) ''id'' PNone = Inr (PStr ''id123'') \<and>
   truthy (PStr ''id123'') \<and> write_res online map_file = Written \<and>
   local_files (online\<lparr>local_files := [report_path \<mapsto> ''v2'']\<rparr>) report_path = Some ''v2'' \<and>
   (case upload_file online (PStr ''F1'') map_file report_path empty_state of (r1, st1) \<Rightarrow>
      r1 = Inr () \<and>
      calls st1 = calls empty_state @
        [CreateObject (basename report_path) (PStr ''F1'') (report_path, ''v1'')] \<and>
      identity_mapping st1 map_file = Some ([] @ [(basename report_path, PStr ''id123'')]) \<and>
      (case upload_file (online\<lparr>local_files := [report_path \<mapsto> ''v2'']\<rparr>) (PStr ''F1'')
              map_file report_path st1 of (r2, st2) \<Rightarrow>
         r2 = Inr () \<and>
         calls st2 = calls st1 @ [UpdateContent (PStr ''id123'') (report_path, ''v2'')] \<and>
         json_files st2 = json_files st1 \<and>
         identity_mapping st2 map_file = Some ([] @ [(basename report_path, PStr ''id123'')])))"
proof -
  let ?e2 = "online\<lparr>local_files := [report_path \<mapsto> ''v2'']\<rparr>"
  have h1: "identity_mapping empty_state map_file = Some []"
    by (simp add: identity_mapping_def empty_state_def)
  have h2: "map_of [] (basename report_path) = (None :: pyval option)" by simp
  have h3: "net_up online" by (simp add: online_def)
  have h4: "local_files online report_path = Some ''v1''" by (simp add: online_def)
  have h5: "remote online (calls empty_state)
     (CreateObject (basename report_path) (PStr ''F1'') (report_path, ''v1''))
     = Returns (PDict [(''id'', PStr ''id123'')])"
    by (simp add: online_def working_service_def)
  have h6: "py_get (PDict [(''id'', PStr ''id123'')]) ''id'' PNone = Inr (PStr ''id123'')"
    by simp
  have h7: "truthy (PStr ''id123'')" by simp
  have h8: "write_res online map_file = Written" by (simp add: online_def)
  have h9: "net_up ?e2" by (simp add: online_def)
  have h10: "local_files ?e2 report_path = Some ''v2''" by simp
  have h11: "basename report_path = basename report_path" by simp
  note c = upload_twice_create_then_update[OF h1 h2 h3 h4 h5 h6 h7 h8 h9 h10 h11,
      of "PStr ''F1''"]
  show ?thesis using h1 h2 h3 h4 h5 h6 h7 h8 h10 c by blast
qed

text \<open>
  C1 without those conditions. With the probe down, \<open>upload_file\<close> for an untracked
  name issues no create-object call and records nothing. With the probe up and a
  create-object call that raises, or with a mapping write that the operating system
  refuses, one create call is issued but no entry is recorded, and the next call for the
  same name issues a second create-object call.
\<close>

theorem upload_without_create_counterexample:
  "mapping_entry empty_state map_file (basename report_path) = None \<and>
   calls (snd (upload_file offline (PStr ''F1'') map_file report_path empty_state)) = [] \<and>
   json_files (snd (upload_file offline (PStr ''F1'') map_file report_path empty_state))
     = json_files empty_state \<and>
   (case upload_file (online\<lparr>remote := failing_service\<rparr>) (PStr ''F1'') map_file report_path
           empty_state of (r1, st1) \<Rightarrow>
      calls st1 = [CreateObject ''report.txt'' (PStr ''F1'') (report_path, ''v1'')] \<and>
      mapping_entry st1 map_file ''report.txt'' = None \<and>
      calls (snd (upload_file online (PStr ''F1'') map_file report_path st1)) =
        [CreateObject ''report.txt'' (PStr ''F1'') (report_path, ''v1''),
         CreateObject ''report.txt'' (PStr ''F1'') (report_path, ''v1'')]) \<and>
   (case upload_file (online\<lparr>write_res := (\<lambda>p. OpenFailed)\<rparr>) (PStr ''F1'') map_file
           report_path empty_state of (r1, st1) \<Rightarrow>
      calls st1 = [CreateObject ''report.txt'' (PStr ''F1'') (report_path, ''v1'')] \<and>
      mapping_entry st1 map_file ''report.txt'' = None \<and>
      calls (snd (upload_file online (PStr ''F1'') map_file report_path st1)) =
        [CreateObject ''report.txt'' (PStr ''F1'') (report_path, ''v1''),
         CreateObject ''report.txt'' (PStr ''F1'') (report_path, ''v1'')])"
  by (simp add: run_defs)


text \<open>
  C3 (no-network short-circuit). For every container id, mapping path, local path,
  environment and state: when the connectivity probe reports unreachable,
  \<open>upload_file\<close> returns normally having issued no remote call and performed no
  file-system operation on the persisted documents (no existence test, read or write);
  the documents are unchanged and the log ends with the no-connection error for the
  path.
\<close>

theorem upload_file_no_connection:
  assumes "\<not> net_up e"
  shows "case upload_file e cid mp fp st of (r, st') \<Rightarrow>
           r = Inr () \<and> calls st' = calls st \<and> fs_ops st' = fs_ops st \<and>
           json_files st' = json_files st \<and> text_files st' = text_files st \<and>
           logged st' = logged st @
             [(INFO, CheckingConnectivity), (WARNING, NoConnectionDetected),
              (ERROR, CannotUploadNoConnection fp)]"
  using assms by (simp add: upload_file_def is_internet_connected_def emit_def)

theorem upload_file_no_connection_witness:
  "\<not> net_up offline \<and>
   (case upload_file offline (PStr ''F1'') map_file report_path tracked_state of (r, st') \<Rightarrow>
      r = Inr () \<and> calls st' = calls tracked_state \<and> fs_ops st' = fs_ops tracked_state \<and>
      json_files st' = json_files tracked_state \<and>
      text_files st' = text_files tracked_state \<and>
      logged st' = logged tracked_state @
        [(INFO, CheckingConnectivity), (WARNING, NoConnectionDetected),
         (ERROR, CannotUploadNoConnection report_path)])"
proof -
  have h: "\<not> net_up offline" by (simp add: offline_def online_def)
  from upload_file_no_connection[OF h, where cid = "PStr ''F1''" and mp = map_file
      and fp = report_path and st = tracked_state] h
  show ?thesis by blast
qed

text \<open>
  C4 (upload never raises). The claim asks that no exception leaves \<open>upload_file\<close>,
  a missing local file included. Remote-call exceptions are indeed absorbed
  (\<open>upload_file_remote_failure_caught\<close>), but the media object is built before the
  \<open>try\<close>: with the network up and no file at the path (here a temporary file that is
  gone by the time its event is handled), the \<open>OSError\<close> of the failed open leaves
  \<open>upload_file\<close> and the \<open>on_created\<close> handler that called it.
\<close>

theorem upload_file_raises_on_missing_file:
  "net_up online \<and> local_files online ''/home/u/sync/draft.tmp'' = None \<and>
   fst (upload_file online (PStr ''F1'') map_file ''/home/u/sync/draft.tmp'' empty_state)
     = Inl OSError \<and>
   fst (dispatch online example_watcher Created
         \<lparr>is_directory = False, src_path = ''/home/u/sync/draft.tmp'', dest_path = None\<rparr>
         empty_state) = Inl OSError"
  by (simp add: dispatch_def on_created_def upload_file_def is_internet_connected_def
      online_def report_path_def basename_def emit_def)

text \<open>
  C5 (failed delete keeps the mapping). For every name \<open>n\<close> with a mapping entry
  \<open>n \<mapsto> i\<close>: \<open>delete_file_from_drive\<close> never raises; if the remote delete-object call
  raises, be it the structured \<open>HttpError\<close> or anything else, every persisted document
  is unchanged and the entry is still there, the failure being logged under its class;
  and if the entry is gone afterwards, the remote delete had returned normally.
\<close>

theorem delete_failure_keeps_mapping:
  assumes "mapping_entry st mp n = Some i"
  shows "case delete_file_from_drive e mp n st of (r, st') \<Rightarrow>
           r = Inr () \<and>
           (remote e (calls st) (DeleteObject i) = Raises x \<longrightarrow>
              json_files st' = json_files st \<and> mapping_entry st' mp n = Some i \<and>
              (truthy i \<longrightarrow>
                 calls st' = calls st @ [DeleteObject i] \<and>
                 last (logged st') =
                   (ERROR, if is_HttpError x then HttpErrorDeleting n x
                           else UnexpectedErrorDeleting n x))) \<and>
           (mapping_entry st' mp n \<noteq> Some i \<longrightarrow>
              truthy i \<and> (\<exists>v. remote e (calls st) (DeleteObject i) = Returns v))"
proof (cases "truthy i")
  case False
  show ?thesis using assms False
    by (simp add: delete_falsy[OF assms False] emit_def get_file_id_frame mapping_entry_def)
next
  case True
  let ?s1 = "snd (get_file_id mp n st)"
  have fr: "json_files ?s1 = json_files st" "calls ?s1 = calls st"
    by (rule get_file_id_frame)+
  show ?thesis
  proof (cases "remote e (calls st) (DeleteObject i)")
    case (Raises y)
    then show ?thesis using True assms fr
      by (auto simp add: delete_tracked[OF assms True] execute_def emit_def Let_def
          mapping_entry_def)
  next
    case (Returns v)
    then show ?thesis using True assms fr
      by (simp add: delete_tracked[OF assms True] execute_def emit_def Let_def
          split: prod.splits sum.splits)
  qed
qed

theorem delete_failure_keeps_mapping_witness:
  "mapping_entry tracked_state map_file ''report.txt'' = Some (PStr ''id123'') \<and>
   truthy (PStr ''id123'') \<and>
   remote (online\<lparr>remote := failing_service\<rparr>) (calls tracked_state)
     (DeleteObject (PStr ''id123'')) = Raises (HttpError 404) \<and>
   json_files (snd (delete_file_from_drive (online\<lparr>remote := failing_service\<rparr>) map_file
      ''report.txt'' tracked_state)) = json_files tracked_state \<and>
   last (logged (snd (delete_file_from_drive (online\<lparr>remote := failing_service\<rparr>) map_file
      ''report.txt'' tracked_state))) = (ERROR, HttpErrorDeleting ''report.txt'' (HttpError 404)) \<and>
   mapping_entry (snd (delete_file_from_drive online map_file ''report.txt'' tracked_state))
     map_file ''report.txt'' \<noteq> Some (PStr ''id123'') \<and>
   (\<exists>v. remote online (calls tracked_state) (DeleteObject (PStr ''id123'')) = Returns v)"
proof -
  let ?bad = "online\<lparr>remote := failing_service\<rparr>"
  have h1: "mapping_entry tracked_state map_file ''report.txt'' = Some (PStr ''id123'')"
    by (simp add: mapping_entry_def tracked_state_def)
  have h2: "truthy (PStr ''id123'')" by simp
  have h3: "remote ?bad (calls tracked_state) (DeleteObject (PStr ''id123''))
              = Raises (HttpError 404)"
    by (simp add: failing_service_def)
  have h4: "mapping_entry (snd (delete_file_from_drive online map_file ''report.txt''
              tracked_state)) map_file ''report.txt'' \<noteq> Some (PStr ''id123'')"
    by (simp add: delete_file_from_drive_def get_file_id_def remove_file_mapping_def io_defs
        tracked_state_def empty_state_def online_def working_service_def mapping_entry_def)
  from delete_failure_keeps_mapping[OF h1, where e = ?bad and x = "HttpError 404"] h2 h3
  have a: "json_files (snd (delete_file_from_drive ?bad map_file ''report.txt''
              tracked_state)) = json_files tracked_state"
    "last (logged (snd (delete_file_from_drive ?bad map_file ''report.txt'' tracked_state)))
       = (ERROR, HttpErrorDeleting ''report.txt'' (HttpError 404))"
    by (simp_all add: case_prod_beta)
  from delete_failure_keeps_mapping[OF h1, where e = online] h4
  have b: "\<exists>v. remote online (calls tracked_state) (DeleteObject (PStr ''id123'')) = Returns v"
    by (simp add: case_prod_beta)
  show ?thesis using h1 h2 h3 h4 a b by blast
qed

text \<open>
  C6 (deleting an untracked name). For every name \<open>n\<close>: when the mapping has no entry
  for \<open>n\<close>, \<open>delete_file_from_drive\<close> returns normally, reports "not found in Drive
  mapping", issues no remote call and leaves the documents unchanged. Hence after a
  successful first delete (the remote call returned, the entry was removed) a second
  delete of the same name is such a no-op.
\<close>

theorem delete_untracked_noop:
  "(mapping_entry st mp n = None \<longrightarrow>
      (case delete_file_from_drive e mp n st of (r, st') \<Rightarrow>
         r = Inr () \<and> calls st' = calls st \<and> json_files st' = json_files st \<and>
         text_files st' = text_files st \<and>
         last (logged st') = (WARNING, NotFoundInDriveMapping n)))
   \<and> (mapping_entry init mp n = Some i \<and> truthy i \<and>
        remote e (calls init) (DeleteObject i) = Returns v \<and> write_res e mp = Written \<longrightarrow>
      (case delete_file_from_drive e mp n init of (r1, s1) \<Rightarrow>
         calls s1 = calls init @ [DeleteObject i] \<and> mapping_entry s1 mp n = None \<and>
         (case delete_file_from_drive e' mp n s1 of (r2, s2) \<Rightarrow>
            r2 = Inr () \<and> calls s2 = calls s1 \<and> json_files s2 = json_files s1 \<and>
            text_files s2 = text_files s1 \<and>
            last (logged s2) = (WARNING, NotFoundInDriveMapping n))))"
proof (intro conjI impI)
  assume "mapping_entry st mp n = None"
  then show "case delete_file_from_drive e mp n st of (r, st') \<Rightarrow>
         r = Inr () \<and> calls st' = calls st \<and> json_files st' = json_files st \<and>
         text_files st' = text_files st \<and>
         last (logged st') = (WARNING, NotFoundInDriveMapping n)"
    by (rule delete_untracked_effect)
next
  assume h: "mapping_entry init mp n = Some i \<and> truthy i \<and>
        remote e (calls init) (DeleteObject i) = Returns v \<and> write_res e mp = Written"
  obtain r1 s1 where d: "delete_file_from_drive e mp n init = (r1, s1)"
    by (cases "delete_file_from_drive e mp n init")
  from h have "case delete_file_from_drive e mp n init of (r1, s1) \<Rightarrow>
         calls s1 = calls init @ [DeleteObject i] \<and> mapping_entry s1 mp n = None"
    by (intro delete_success_effect) simp_all
  with d have c: "calls s1 = calls init @ [DeleteObject i]" "mapping_entry s1 mp n = None"
    by simp_all
  from delete_untracked_effect[OF c(2), of e'] d c
  show "case delete_file_from_drive e mp n init of (r1, s1) \<Rightarrow>
         calls s1 = calls init @ [DeleteObject i] \<and> mapping_entry s1 mp n = None \<and>
         (case delete_file_from_drive e' mp n s1 of (r2, s2) \<Rightarrow>
            r2 = Inr () \<and> calls s2 = calls s1 \<and> json_files s2 = json_files s1 \<and>
            text_files s2 = text_files s1 \<and>
            last (logged s2) = (WARNING, NotFoundInDriveMapping n))"
    by simp
qed

theorem delete_untracked_noop_witness:
  "mapping_entry empty_state map_file ''report.txt'' = None \<and>
   (case delete_file_from_drive online map_file ''report.txt'' empty_state of (r, st') \<Rightarrow>
      r = Inr () \<and> calls st' = calls empty_state \<and>
      json_files st' = json_files empty_state \<and> text_files st' = text_files empty_state \<and>
      last (logged st') = (WARNING, NotFoundInDriveMapping ''report.txt'')) \<and>
   mapping_entry tracked_state map_file ''report.txt'' = Some (PStr ''id123'') \<and>
   truthy (PStr ''id123'') \<and>
   remote online (calls tracked_state) (DeleteObject (PStr ''id123'')) = Returns (PStr []) \<and>
   write_res online map_file = Written \<and>
   (case delete_file_from_drive online map_file ''report.txt'' tracked_state of (r1, s1) \<Rightarrow>
      calls s1 = calls tracked_state @ [DeleteObject (PStr ''id123'')] \<and>
      mapping_entry s1 map_file ''report.txt'' = None \<and>
      (case delete_file_from_drive online map_file ''report.txt'' s1 of (r2, s2) \<Rightarrow>
         r2 = Inr () \<and> calls s2 = calls s1 \<and> json_files s2 = json_files s1 \<and>
         text_files s2 = text_files s1 \<and>
         last (logged s2) = (WARNING, NotFoundInDriveMapping ''report.txt'')))"
proof -
  have h1: "mapping_entry empty_state map_file ''report.txt'' = None"
    by (simp add: mapping_entry_def empty_state_def)
  have h2: "mapping_entry tracked_state map_file ''report.txt'' = Some (PStr ''id123'')"
    by (simp add: mapping_entry_def tracked_state_def)
  have h3: "truthy (PStr ''id123'')" by simp
  have h4: "remote online (calls tracked_state) (DeleteObject (PStr ''id123''))
              = Returns (PStr [])"
    by (simp add: online_def working_service_def)
  have h5: "write_res online map_file = Written" by (simp add: online_def)
  note c = delete_untracked_noop[where st = empty_state and mp = map_file
      and n = "''report.txt''" and e = online and init = tracked_state
      and i = "PStr ''id123''" and v = "PStr []" and e' = online]
  show ?thesis using h1 h2 h3 h4 h5 c by simp
qed

text \<open>
  Text that is no JSON. For every mapping document on which \<open>json.load\<close> raises
  \<open>JSONDecodeError\<close>, every name \<open>n\<close> and identifier \<open>i\<close>: \<open>get_file_id\<close> yields
  \<open>None\<close> and touches no document; a following \<open>save_file_mapping\<close> treats the
  document as empty, returns normally and, when its write is performed, leaves a
  document that holds exactly the one entry \<open>n \<mapsto> i\<close>.
\<close>

lemma corrupt_json_recreated:
  assumes "json_files st mp = Some Corrupt"
  shows "case get_file_id mp n st of (v, st1) \<Rightarrow>
           v = PNone \<and> json_files st1 = json_files st \<and>
           (case save_file_mapping e mp n i st1 of (r, st2) \<Rightarrow>
              r = Inr () \<and>
              (write_res e mp = Written \<longrightarrow>
                 json_files st2 mp = Some (Parsed (PDict [(n, i)]))))"
  using assms
  by (simp add: get_file_id_def save_file_mapping_def io_defs split: wres.splits)

lemma corrupt_json_recreated_example:
  "json_files corrupt_state map_file = Some Corrupt \<and>
   write_res online map_file = Written \<and>
   (case get_file_id map_file ''report.txt'' corrupt_state of (v, st1) \<Rightarrow>
      v = PNone \<and> json_files st1 = json_files corrupt_state \<and>
      (case save_file_mapping online map_file ''report.txt'' (PStr ''id123'') st1 of
         (r, st2) \<Rightarrow>
           r = Inr () \<and>
           (write_res online map_file = Written \<longrightarrow>
              json_files st2 map_file =
                Some (Parsed (PDict [(''report.txt'', PStr ''id123'')])))))"
proof -
  have h1: "json_files corrupt_state map_file = Some Corrupt"
    by (simp add: corrupt_state_def)
  have h2: "write_res online map_file = Written" by (simp add: online_def)
  from corrupt_json_recreated[OF h1, where n = "''report.txt''" and e = online
      and i = "PStr ''id123''"] h1 h2
  show ?thesis by blast
qed

text \<open>
  When the operating system refuses the write, the corrupt document is still treated as
  empty and nothing is raised, but the failed write is only logged and the document
  stays as it was.
\<close>

lemma corrupt_mapping_write_refused:
  "json_files corrupt_state map_file = Some Corrupt \<and>
   (case get_file_id map_file ''report.txt'' corrupt_state of (v, st1) \<Rightarrow>
      v = PNone \<and>
      (case save_file_mapping (online\<lparr>write_res := (\<lambda>p. OpenFailed)\<rparr>) map_file
              ''report.txt'' (PStr ''id123'') st1 of (r, st2) \<Rightarrow>
         r = Inr () \<and> json_files st2 map_file = Some Corrupt \<and>
         json_files st2 map_file \<noteq> Some (Parsed (PDict [(''report.txt'', PStr ''id123'')])) \<and>
         last (logged st2) = (ERROR, FailedToWriteMapping OSError)))"
  by (simp add: run_defs corrupt_state_def)

text \<open>
  Bytes that are no text. On every such document \<open>get_file_id\<close> still yields \<open>None\<close>,
  but \<open>save_file_mapping\<close> raises and writes nothing.
\<close>

lemma undecodable_mapping_raises:
  assumes "json_files st mp = Some Undecodable"
  shows "fst (get_file_id mp n st) = PNone"
    and "fst (save_file_mapping e mp n i st) = Inl UnicodeDecodeError"
    and "json_files (snd (save_file_mapping e mp n i st)) = json_files st"
  using assms
  by (simp_all add: get_file_id_def save_file_mapping_def io_defs)

text \<open>
  C7 (corruption self-heal). The claim asks that for every mapping document whose
  content fails to parse, \<open>get_file_id\<close> yields \<open>None\<close> and a following
  \<open>save_file_mapping\<close> treats the document as empty and rewrites it as exactly
  \<open>{n: i}\<close>. For text that is no JSON that is what happens (\<open>corrupt_json_recreated\<close>).
  But \<open>save_file_mapping\<close> absorbs \<open>JSONDecodeError\<close> only, where \<open>get_file_id\<close> and
  \<open>remove_file_mapping\<close> absorb every exception: on a document whose bytes are not
  even text (such as the four bytes ff fe 7b 7d), \<open>get_file_id\<close> yields \<open>None\<close>, and
  \<open>save_file_mapping\<close> raises \<open>UnicodeDecodeError\<close> and leaves the document as it was.
\<close>

theorem undecodable_mapping_not_healed:
  "json_files undecodable_state map_file = Some Undecodable \<and>
   (case get_file_id map_file ''report.txt'' undecodable_state of (v, st1) \<Rightarrow>
      v = PNone \<and>
      (case save_file_mapping online map_file ''report.txt'' (PStr ''id123'') st1 of
         (r, st2) \<Rightarrow>
           r = Inl UnicodeDecodeError \<and>
           json_files st2 map_file = Some Undecodable \<and>
           json_files st2 map_file \<noteq>
             Some (Parsed (PDict [(''report.txt'', PStr ''id123'')]))))"
  by (simp add: run_defs undecodable_state_def)



text \<open>
  A document that holds nothing but whitespace, the non-ASCII U+00A0 and U+0085 and a
  carriage return included, is blank: the call resolves remotely and overwrites it. An
  interior carriage return is read back as a line feed.
\<close>

lemma blank_document_resolves_remotely:
  "cached_folder_id
     (empty_state\<lparr>text_files := [id_file \<mapsto> Text [CHR 0xA0, CHR 0x85, CHR 0x0D]]\<rparr>)
     id_file = None \<and>
   (case get_or_create_folder_id online example_watcher
           (empty_state\<lparr>text_files := [id_file \<mapsto> Text [CHR 0xA0, CHR 0x85, CHR 0x0D]]\<rparr>)
    of (r, w', s1) \<Rightarrow>
      r = Inr (PStr ''F1'') \<and> calls s1 = [list_query ''sync'', CreateFolder ''sync''] \<and>
      text_files s1 id_file = Some (Text ''F1''))"
  by (simp add: get_or_create_folder_id_def get_or_create_drive_folder_def text_exists_def
      text_read_def text_write_def io_defs empty_state_def online_def working_service_def
      example_paths cached_folder_id_def list_query_def strip_def is_space_def)

lemma carriage_return_read_back:
  "universal_newlines [CHR ''a'', CHR 0x0D, CHR 0x0A, CHR ''b'', CHR 0x0D, CHR ''c'']
     = [CHR ''a'', CHR 0x0A, CHR ''b'', CHR 0x0A, CHR ''c'']"
  by simp

text \<open>
  C9 (cached container resolver). When the container-identity document holds a
  non-empty trimmed text \<open>c\<close>, \<open>get_or_create_folder_id\<close> returns \<open>c\<close> with no remote
  call. When it holds none (absent, blank or unreadable), the call makes exactly one
  remote resolve (a list call, followed by a create call only when nothing was listed)
  and returns what the resolve returns. When that resolve yields a non-empty string \<open>i\<close>
  and the write is performed, the document then holds \<open>i\<close>, and unless \<open>i\<close> is blank a
  further call, in any environment, returns \<open>i\<close> as it is read back (line endings
  normalised, then trimmed) with no remote call.
\<close>

theorem cached_container_resolver:
  "(cached_folder_id st (folder_id_file w) = Some c \<longrightarrow>
      (case get_or_create_folder_id e w st of (r, w', st') \<Rightarrow>
         r = Inr (PStr c) \<and> folder_id w' = PStr c \<and> calls st' = calls st \<and>
         text_files st' = text_files st))
   \<and> (cached_folder_id init (folder_id_file w) = None \<longrightarrow>
      (case get_or_create_folder_id e w init of (r, w', s1) \<Rightarrow>
         r = fst (get_or_create_drive_folder e (basename (watch_folder w)) init) \<and>
         calls s1 = calls (snd (get_or_create_drive_folder e (basename (watch_folder w)) init)) \<and>
         (calls s1 = calls init @ [list_query (basename (watch_folder w))] \<or>
          calls s1 = calls init @ [list_query (basename (watch_folder w)),
                                 CreateFolder (basename (watch_folder w))]) \<and>
         (r = Inr (PStr i) \<and> i \<noteq> [] \<and> makedirs_ok e (base_dir w) \<and>
          write_res e (folder_id_file w) = Written \<longrightarrow>
            text_files s1 (folder_id_file w) = Some (Text i) \<and> folder_id w' = PStr i \<and>
            (strip (universal_newlines i) \<noteq> [] \<longrightarrow>
               (case get_or_create_folder_id e' w' s1 of (r2, w2, s2) \<Rightarrow>
                  r2 = Inr (PStr (strip (universal_newlines i))) \<and>
                  folder_id w2 = PStr (strip (universal_newlines i)) \<and>
                  calls s2 = calls s1)))))"
proof (intro conjI impI)
  assume "cached_folder_id st (folder_id_file w) = Some c"
  then show "case get_or_create_folder_id e w st of (r, w', st') \<Rightarrow>
         r = Inr (PStr c) \<and> folder_id w' = PStr c \<and> calls st' = calls st \<and>
         text_files st' = text_files st"
    by (simp add: folder_id_cached)
next
  assume u: "cached_folder_id init (folder_id_file w) = None"
  let ?nm = "basename (watch_folder w)"
  let ?f = "folder_id_file w"
  from folder_id_uncached[OF u, of e] obtain s where
    s: "calls s = calls init" "text_files s = text_files init" and
    eq: "get_or_create_folder_id e w init =
           (case get_or_create_drive_folder e ?nm s of
                (Inl x, s) \<Rightarrow> (Inl x, w, s)
              | (Inr fid, s) \<Rightarrow>
                  if truthy fid then
                    (let s1 = note_op (Makedirs (base_dir w)) s in
                     if makedirs_ok e (base_dir w) then
                       (case text_write e ?f fid s1 of
                          (Inr u, s') \<Rightarrow> (Inr fid, w\<lparr>folder_id := fid\<rparr>, s')
                        | (Inl x, s') \<Rightarrow> (Inr fid, w, emit ERROR (FailedToSaveFolderId x) s'))
                     else (Inr fid, w, emit ERROR (FailedToSaveFolderId OSError) s1))
                  else (Inr fid, w, s))"
    by blast
  obtain rr sr where g: "get_or_create_drive_folder e ?nm s = (rr, sr)"
    by (cases "get_or_create_drive_folder e ?nm s")
  have rr: "rr = fst (get_or_create_drive_folder e ?nm init)"
    and cr: "calls sr = calls (snd (get_or_create_drive_folder e ?nm init))"
    using resolve_depends_on_calls[OF s(1), of e ?nm] g by simp_all
  have one: "calls sr = calls init @ [list_query ?nm] \<or>
             calls sr = calls init @ [list_query ?nm, CreateFolder ?nm]"
    using resolve_calls[of e ?nm init] cr by simp
  obtain r w' s1 where o: "get_or_create_folder_id e w init = (r, w', s1)"
    by (cases "get_or_create_folder_id e w init")
  have a: "r = rr \<and> calls s1 = calls sr"
    using eq o g
    by (auto simp add: Let_def emit_def note_op_def text_write_def
        split: sum.splits if_splits prod.splits wres.splits pyval.splits)
  have b: "text_files s1 ?f = Some (Text i) \<and> folder_id w' = PStr i"
    if "r = Inr (PStr i)" "i \<noteq> []" "makedirs_ok e (base_dir w)" "write_res e ?f = Written"
    using eq o g that a
    by (auto simp add: Let_def emit_def note_op_def text_write_def
        split: sum.splits if_splits prod.splits)
  have fw: "folder_id_file w' = ?f"
    using eq o g
    by (auto simp add: Let_def split: sum.splits if_splits prod.splits)
  have c: "case get_or_create_folder_id e' w' s1 of (r2, w2, s2) \<Rightarrow>
                  r2 = Inr (PStr (strip (universal_newlines i))) \<and>
                  folder_id w2 = PStr (strip (universal_newlines i)) \<and>
                  calls s2 = calls s1"
    if "text_files s1 ?f = Some (Text i)" "strip (universal_newlines i) \<noteq> []"
  proof -
    have "cached_folder_id s1 (folder_id_file w') = Some (strip (universal_newlines i))"
      using that fw by (simp add: cached_folder_id_def)
    then show ?thesis by (simp add: folder_id_cached)
  qed
  show "case get_or_create_folder_id e w init of (r, w', s1) \<Rightarrow>
         r = fst (get_or_create_drive_folder e ?nm init) \<and>
         calls s1 = calls (snd (get_or_create_drive_folder e ?nm init)) \<and>
         (calls s1 = calls init @ [list_query ?nm] \<or>
          calls s1 = calls init @ [list_query ?nm, CreateFolder ?nm]) \<and>
         (r = Inr (PStr i) \<and> i \<noteq> [] \<and> makedirs_ok e (base_dir w) \<and>
          write_res e ?f = Written \<longrightarrow>
            text_files s1 ?f = Some (Text i) \<and> folder_id w' = PStr i \<and>
            (strip (universal_newlines i) \<noteq> [] \<longrightarrow>
               (case get_or_create_folder_id e' w' s1 of (r2, w2, s2) \<Rightarrow>
                  r2 = Inr (PStr (strip (universal_newlines i))) \<and>
                  folder_id w2 = PStr (strip (universal_newlines i)) \<and>
                  calls s2 = calls s1)))"
    using o a rr cr one b c by auto
qed

theorem cached_container_resolver_witness:
  "cached_folder_id cached_state (folder_id_file example_watcher) = Some ''F7'' \<and>
   fst (get_or_create_folder_id (online\<lparr>remote := failing_service\<rparr>) example_watcher
          cached_state) = Inr (PStr ''F7'') \<and>
   calls (snd (snd (get_or_create_folder_id (online\<lparr>remote := failing_service\<rparr>)
          example_watcher cached_state))) = calls cached_state \<and>
   cached_folder_id empty_state (folder_id_file example_watcher) = None \<and>
   fst (get_or_create_folder_id online example_watcher empty_state) = Inr (PStr ''F1'') \<and>
   ''F1'' \<noteq> [] \<and> strip (universal_newlines ''F1'') \<noteq> [] \<and>
   makedirs_ok online (base_dir example_watcher) \<and>
   write_res online (folder_id_file example_watcher) = Written \<and>
   text_files (snd (snd (get_or_create_folder_id online example_watcher empty_state)))
     (folder_id_file example_watcher) = Some (Text ''F1'') \<and>
   calls (snd (snd (get_or_create_folder_id (online\<lparr>remote := failing_service\<rparr>)
      (fst (snd (get_or_create_folder_id online example_watcher empty_state)))
      (snd (snd (get_or_create_folder_id online example_watcher empty_state))))))
     = calls (snd (snd (get_or_create_folder_id online example_watcher empty_state)))"
proof -
  let ?bad = "online\<lparr>remote := failing_service\<rparr>"
  let ?X = "get_or_create_folder_id online example_watcher empty_state"
  have sF7: "strip ''F7 '' = ''F7''" by (simp add: strip_def is_space_def)
  have sF1: "strip ''F1'' = ''F1''" by (simp add: strip_def is_space_def)
  have h1: "cached_folder_id cached_state (folder_id_file example_watcher) = Some ''F7''"
    by (simp add: cached_folder_id_def cached_state_def example_paths sF7)
  have h2: "cached_folder_id empty_state (folder_id_file example_watcher) = None"
    by (simp add: cached_folder_id_def empty_state_def)
  have h3: "fst ?X = Inr (PStr ''F1'')"
    by (simp add: get_or_create_folder_id_def get_or_create_drive_folder_def text_exists_def
        text_write_def io_defs empty_state_def online_def working_service_def example_paths)
  have h4: "''F1'' \<noteq> []" "strip (universal_newlines ''F1'') \<noteq> []"
    by (simp_all add: sF1)
  have h5: "makedirs_ok online (base_dir example_watcher)" by (simp add: online_def)
  have h6: "write_res online (folder_id_file example_watcher) = Written"
    by (simp add: online_def)
  note A = cached_container_resolver[where st = cached_state and w = example_watcher
      and c = "''F7''" and e = ?bad and init = cached_state]
  note B = cached_container_resolver[where st = cached_state and w = example_watcher
      and e = online and init = empty_state and i = "''F1''" and e' = ?bad]
  have a: "fst (get_or_create_folder_id ?bad example_watcher cached_state) = Inr (PStr ''F7'')"
    "calls (snd (snd (get_or_create_folder_id ?bad example_watcher cached_state)))
       = calls cached_state"
    using A h1 by (simp_all add: case_prod_beta)
  have b: "text_files (snd (snd ?X)) (folder_id_file example_watcher) = Some (Text ''F1'')"
    "calls (snd (snd (get_or_create_folder_id ?bad (fst (snd ?X)) (snd (snd ?X)))))
       = calls (snd (snd ?X))"
    using B h2 h3 h4 h5 h6 by (simp_all add: case_prod_beta)
  show ?thesis using h1 h2 h3 h4 h5 h6 a b by blast
qed

text \<open>
  C9 when the resolve fails. Starting from an absent document with a list call that
  raises, the first call returns \<open>None\<close> and persists nothing, and the second call
  goes to the remote service again.
\<close>

theorem unresolved_container_counterexample:
  "cached_folder_id empty_state (folder_id_file example_watcher) = None \<and>
   (case get_or_create_folder_id (online\<lparr>remote := failing_service\<rparr>) example_watcher
           empty_state of (r, w', s1) \<Rightarrow>
      r = Inr PNone \<and> calls s1 = [list_query ''sync''] \<and>
      text_files s1 (folder_id_file example_watcher) = None \<and>
      (case get_or_create_folder_id (online\<lparr>remote := failing_service\<rparr>) w' s1 of
         (r2, w2, s2) \<Rightarrow>
           r2 = Inr PNone \<and> calls s2 = [list_query ''sync'', list_query ''sync'']))"
  by (simp add: get_or_create_folder_id_def get_or_create_drive_folder_def text_exists_def
      text_read_def io_defs empty_state_def online_def failing_service_def example_paths
      cached_folder_id_def list_query_def)

text \<open>
  C10 (moved events). For every moved event whose subject is not a directory: when the
  destination path contains a trash marker the reconciler does exactly what
  \<open>delete_file_from_drive\<close> does for the base name of the source path, so the only
  remote call it can issue is the delete-object call on that name's mapped identifier;
  when the destination contains no trash marker nothing happens at all: the state,
  mapping included, is unchanged and no remote call is issued.
\<close>

theorem moved_event_policy:
  assumes "\<not> is_directory ev"
  shows "dispatch e w Moved ev st =
           (if trash_destination ev
            then delete_file_from_drive e (mapping_path w) (basename (src_path ev)) st
            else (Inr (), st))
         \<and> (case dispatch e w Moved ev st of (r, st') \<Rightarrow>
              r = Inr () \<and>
              (\<not> trash_destination ev \<longrightarrow> st' = st) \<and>
              (calls st' = calls st \<and> json_files st' = json_files st \<or>
               (\<exists>i. mapping_entry st (mapping_path w) (basename (src_path ev)) = Some i \<and>
                    calls st' = calls st @ [DeleteObject i])))"
proof (cases "trash_destination ev")
  case True
  then show ?thesis
    using assms delete_calls[where e = e and mp = "mapping_path w"
        and n = "basename (src_path ev)" and st = st]
    by (auto simp add: dispatch_def on_moved_def split: prod.splits)
next
  case False
  then show ?thesis using assms by (simp add: dispatch_def on_moved_def)
qed

theorem moved_event_policy_witness:
  "\<not> is_directory report_to_trash \<and> trash_destination report_to_trash \<and>
   dispatch online example_watcher Moved report_to_trash tracked_state =
     delete_file_from_drive online (mapping_path example_watcher)
       (basename (src_path report_to_trash)) tracked_state \<and>
   \<not> is_directory report_renamed \<and> \<not> trash_destination report_renamed \<and>
   dispatch online example_watcher Moved report_renamed tracked_state
     = (Inr (), tracked_state)"
proof -
  have h1: "\<not> is_directory report_to_trash" by (simp add: report_to_trash_def)
  have h2: "trash_destination report_to_trash"
    by (simp add: report_to_trash_def trash_destination_def)
  have h3: "\<not> is_directory report_renamed" by (simp add: report_renamed_def)
  have h4: "\<not> trash_destination report_renamed"
    by (simp add: report_renamed_def trash_destination_def)
  from moved_event_policy[OF h1, where e = online and w = example_watcher
      and st = tracked_state] h2
  have a: "dispatch online example_watcher Moved report_to_trash tracked_state =
     delete_file_from_drive online (mapping_path example_watcher)
       (basename (src_path report_to_trash)) tracked_state"
    by simp
  from moved_event_policy[OF h3, where e = online and w = example_watcher
      and st = tracked_state] h4
  have b: "dispatch online example_watcher Moved report_renamed tracked_state
     = (Inr (), tracked_state)"
    by simp
  show ?thesis using h1 h2 h3 h4 a b by blast
qed

end
